theory Spec2Isabelle
  imports Complex_Main
begin

section \<open>The inventory counter backend (stock_api.py)\<close>

text \<open>
  The module is a FastAPI application with four routes in front of a Google Sheets
  client. Everything it does beyond computing a value is made explicit here:
  \<^item> the module-level configuration read from the environment is a record that every
    function takes as an argument;
  \<^item> the libraries and the operating system (json, google-auth, googleapiclient,
    os.path, the clock, the file system) are a record of functions, the environment;
    a library call that raises returns \<open>Inl\<close> with the text of the exception;
  \<^item> a handler returns its outcome (\<open>Inl\<close> what it raises, \<open>Inr\<close> what it returns)
    together with the list of effects it performed, in order.
\<close>

subsection \<open>Python values\<close>

text \<open>
  A \<open>str\<close> is a list of characters; a character stands for the code point of the same
  number (U+0000 to U+00FF). A name bound to \<open>str | None\<close> is a \<open>string option\<close>.
  The payload's \<open>float\<close> is only carried from the request to the row and to the echo,
  never computed with, so its type is left as a parameter.
\<close>

datatype 'float pyval =
    PyStr string
  | PyFloat 'float
  | PyList "'float pyval list"
  | PyDict "(string \<times> 'float pyval) list"

text \<open>
  Truth value of an optional string, as tested by \<open>if X\<close> and \<open>if not X\<close>: \<open>None\<close> and
  the empty string are false. \<open>truthy_value\<close> gives the string in the true case.
\<close>

definition truthy_value :: "string option \<Rightarrow> string option" where
  "truthy_value v = (case v of None \<Rightarrow> None | Some s \<Rightarrow> if s = [] then None else Some s)"

definition truthy :: "string option \<Rightarrow> bool" where
  "truthy v = (truthy_value v \<noteq> None)"

text \<open>
  \<open>str.isspace\<close> on a single character, for the code points below 256: the ASCII
  controls TAB to CR and FS to US, the space, NEL (U+0085) and the no-break space
  (U+00A0). \<open>str.strip()\<close> removes such characters from both ends.
\<close>

definition isspace :: "char \<Rightarrow> bool" where
  "isspace c =
     (let n = (of_char c :: nat)
      in (9 \<le> n \<and> n \<le> 13) \<or> (28 \<le> n \<and> n \<le> 32) \<or> n = 133 \<or> n = 160)"

definition strip :: "string \<Rightarrow> string" where
  "strip s = rev (dropWhile isspace (rev (dropWhile isspace s)))"

subsection \<open>Dates\<close>

text \<open>
  \<open>datetime.date\<close> and its \<open>isoformat()\<close>, which the standard library documents as
  \<open>'%04d-%02d-%02d' % (year, month, day)\<close>.
\<close>

record date =
  year :: nat
  month :: nat
  day :: nat

definition digit :: "nat \<Rightarrow> char" where
  "digit d = ''0123456789'' ! d"

fun dec :: "nat \<Rightarrow> string" where
  "dec n = (if n < 10 then [digit n] else dec (n div 10) @ [digit (n mod 10)])"

declare dec.simps [simp del]

definition zero_padded :: "nat \<Rightarrow> nat \<Rightarrow> string" where
  "zero_padded w n = replicate (w - length (dec n)) CHR ''0'' @ dec n"

definition isoformat :: "date \<Rightarrow> string" where
  "isoformat d =
     zero_padded 4 (year d) @ ''-'' @ zero_padded 2 (month d) @ ''-'' @ zero_padded 2 (day d)"

definition is_digit :: "char \<Rightarrow> bool" where
  "is_digit c = (c \<in> set ''0123456789'')"

text \<open>The dates \<open>datetime.date\<close> can hold have a year from 1 to 9999.\<close>

definition date_in_range :: "date \<Rightarrow> bool" where
  "date_in_range d =
     (1 \<le> year d \<and> year d \<le> 9999 \<and> 1 \<le> month d \<and> month d \<le> 12 \<and> 1 \<le> day d \<and> day d \<le> 31)"

subsection \<open>Configuration\<close>

text \<open>The four names bound by \<open>os.getenv\<close> when the module is loaded, and the constants.\<close>

record config =
  SHEET_ID :: "string option"
  SERVICE_ACCOUNT_JSON :: "string option"
  SERVICE_FILE :: "string option"
  SHARED_PIN :: "string option"

definition TAB_NAME :: string where
  "TAB_NAME = ''Input_Counts''"

definition SCOPES :: "string list" where
  "SCOPES = [''https://www.googleapis.com/auth/spreadsheets'']"

definition ITEM_MASTER_RANGE :: string where
  "ITEM_MASTER_RANGE = ''Item_Master!B2:B''"

record 'float CountPayload =
  counter_name :: string
  store_name :: string
  sub_location :: string
  item_name :: string
  condition :: string
  qty :: 'float

subsection \<open>The Sheets client and the environment\<close>

text \<open>
  The object returned by \<open>build\<close>, reduced to the two requests the module executes:
  \<open>spreadsheets().values().get(spreadsheetId, range).execute()\<close>, which returns the
  response's \<open>values\<close> entry when it has one (rows of formatted cell texts), and
  \<open>spreadsheets().values().append(spreadsheetId, range, valueInputOption,
  body).execute()\<close>, whose result the module ignores (\<open>None\<close>: it returned).
\<close>

record 'float sheets_service =
  values_get :: "string option \<Rightarrow> string \<Rightarrow> string + string list list option"
  values_append :: "string option \<Rightarrow> string \<Rightarrow> string \<Rightarrow> 'float pyval \<Rightarrow> string option"

record ('info, 'creds, 'float) environment =
  json_loads :: "string \<Rightarrow> string + 'info"
  from_service_account_info :: "'info \<Rightarrow> string list \<Rightarrow> string + 'creds"
  path_isabs :: "string \<Rightarrow> bool"
  path_join :: "string \<Rightarrow> string \<Rightarrow> string"
  module_dirname :: string
  path_exists :: "string \<Rightarrow> bool"
  from_service_account_file :: "string \<Rightarrow> string list \<Rightarrow> string + 'creds"
  build :: "string \<Rightarrow> string \<Rightarrow> 'creds \<Rightarrow> string + 'float sheets_service"
  date_today :: date
  index_read_text :: "string + string"

text \<open>
  What a function of the module can raise: the \<open>RuntimeError\<close> that
  \<open>get_sheets_service\<close> raises itself, or an exception of a library, passed on.
  \<open>exn_str\<close> is \<open>str(e)\<close>, which the f-strings interpolate.
\<close>

datatype exn = RuntimeError string | LibraryError string

fun exn_str :: "exn \<Rightarrow> string" where
  "exn_str (RuntimeError m) = m"
| "exn_str (LibraryError m) = m"

datatype raised = HTTPException (status_code: nat) (detail: string) | Unhandled exn

datatype 'float response = HTMLResponse string | JSONResponse "'float pyval"

datatype 'float effect =
    CredentialResolution
  | ValuesGet "string option" string
  | ValuesAppend "string option" string string "'float pyval"
  | Print string

subsection \<open>get_sheets_service\<close>

text \<open>
  The function in the order of its branches. \<open>load_inline\<close> is the body of the \<open>try\<close>
  block (\<open>json.loads\<close>, then \<open>from_service_account_info\<close>), whose every exception is
  raised again as the \<open>RuntimeError\<close> "Failed to load SERVICE_ACCOUNT_JSON"; \<open>sa_path\<close>
  is the local variable of that name, the key-file path made absolute below the module's
  directory; \<open>build_sheets\<close> is the final \<open>build("sheets", "v4", credentials=creds)\<close>.
  An exception of \<open>from_service_account_file\<close> or of \<open>build\<close> is not caught.
\<close>

definition load_inline ::
  "('info, 'creds, 'float) environment \<Rightarrow> string \<Rightarrow> string + 'creds" where
  "load_inline env text =
     (case json_loads env text of
        Inl e \<Rightarrow> Inl e
      | Inr info \<Rightarrow> from_service_account_info env info SCOPES)"

definition sa_path :: "('info, 'creds, 'float) environment \<Rightarrow> string \<Rightarrow> string" where
  "sa_path env file =
     (if \<not> path_isabs env file then path_join env (module_dirname env) file else file)"

definition build_sheets ::
  "('info, 'creds, 'float) environment \<Rightarrow> 'creds \<Rightarrow> exn + 'float sheets_service" where
  "build_sheets env creds =
     (case build env ''sheets'' ''v4'' creds of
        Inl e \<Rightarrow> Inl (LibraryError e)
      | Inr service \<Rightarrow> Inr service)"

definition get_sheets_service ::
  "config \<Rightarrow> ('info, 'creds, 'float) environment \<Rightarrow> exn + 'float sheets_service" where
  "get_sheets_service cfg env =
     (if \<not> truthy (SHEET_ID cfg) then Inl (RuntimeError ''SHEET_ID env var is not set'')
      else
        (case truthy_value (SERVICE_ACCOUNT_JSON cfg) of
           Some text \<Rightarrow>
             (case load_inline env text of
                Inl e \<Rightarrow> Inl (RuntimeError (''Failed to load SERVICE_ACCOUNT_JSON: '' @ e))
              | Inr creds \<Rightarrow> build_sheets env creds)
         | None \<Rightarrow>
             (case truthy_value (SERVICE_FILE cfg) of
                Some file \<Rightarrow>
                  (if \<not> path_exists env (sa_path env file)
                   then Inl (RuntimeError
                               (''Service account file not found: '' @ sa_path env file))
                   else
                     (case from_service_account_file env (sa_path env file) SCOPES of
                        Inl e \<Rightarrow> Inl (LibraryError e)
                      | Inr creds \<Rightarrow> build_sheets env creds))
              | None \<Rightarrow> Inl (RuntimeError ''No service account credentials configured.''))))"

subsection \<open>The handlers\<close>

text \<open>
  \<open>serve_index\<close> reads \<open>index.html\<close> and does not catch a failure. \<open>get_items\<close> runs in
  one \<open>try\<close> block whose \<open>except Exception\<close> clause prints the error and returns the
  empty list; the comprehension \<open>[row[0] for row in values if row and row[0].strip()]\<close>
  is \<open>item_names\<close>. \<open>submit_count\<close> tests the PIN, resolves the client, builds the row
  and appends it; \<open>payload_dict\<close> is \<open>payload.dict()\<close>, the fields in declaration order.
\<close>

definition serve_index ::
  "('info, 'creds, 'float) environment \<Rightarrow> (raised + 'float response) \<times> 'float effect list" where
  "serve_index env =
     (case index_read_text env of
        Inl e \<Rightarrow> (Inl (Unhandled (LibraryError e)), [])
      | Inr text \<Rightarrow> (Inr (HTMLResponse text), []))"

definition health :: "'float pyval" where
  "health = PyDict [(''status'', PyStr ''running'')]"

definition item_names :: "string list list \<Rightarrow> string list" where
  "item_names values = map hd (filter (\<lambda>row. row \<noteq> [] \<and> strip (hd row) \<noteq> []) values)"

definition items_result :: "string list \<Rightarrow> 'float pyval" where
  "items_result items = PyDict [(''items'', PyList (map PyStr items))]"

definition get_items ::
  "config \<Rightarrow> ('info, 'creds, 'float) environment
     \<Rightarrow> (raised + 'float response) \<times> 'float effect list" where
  "get_items cfg env =
     (case get_sheets_service cfg env of
        Inl e \<Rightarrow>
          (Inr (JSONResponse (items_result [])),
           [CredentialResolution,
            Print (''Error loading items from Item_Master: '' @ exn_str e)])
      | Inr service \<Rightarrow>
          (case values_get service (SHEET_ID cfg) ITEM_MASTER_RANGE of
             Inl e \<Rightarrow>
               (Inr (JSONResponse (items_result [])),
                [CredentialResolution, ValuesGet (SHEET_ID cfg) ITEM_MASTER_RANGE,
                 Print (''Error loading items from Item_Master: '' @ e)])
           | Inr resp \<Rightarrow>
               (let values = (case resp of None \<Rightarrow> [] | Some rows \<Rightarrow> rows);
                    items = item_names values
                in (Inr (JSONResponse (items_result items)),
                    [CredentialResolution, ValuesGet (SHEET_ID cfg) ITEM_MASTER_RANGE]))))"

definition payload_dict :: "'float CountPayload \<Rightarrow> 'float pyval" where
  "payload_dict payload =
     PyDict [(''counter_name'', PyStr (counter_name payload)),
             (''store_name'', PyStr (store_name payload)),
             (''sub_location'', PyStr (sub_location payload)),
             (''item_name'', PyStr (item_name payload)),
             (''condition'', PyStr (condition payload)),
             (''qty'', PyFloat (qty payload))]"

definition submit_count ::
  "config \<Rightarrow> ('info, 'creds, 'float) environment \<Rightarrow> 'float CountPayload \<Rightarrow> string option
     \<Rightarrow> (raised + 'float response) \<times> 'float effect list" where
  "submit_count cfg env payload x_shared_pin =
     (if truthy (SHARED_PIN cfg) \<and> x_shared_pin \<noteq> SHARED_PIN cfg
      then (Inl (HTTPException 401 ''Invalid PIN''), [])
      else
        (case get_sheets_service cfg env of
           Inl e \<Rightarrow>
             (Inl (HTTPException 500 (''Config error: '' @ exn_str e)), [CredentialResolution])
         | Inr service \<Rightarrow>
             (let today = isoformat (date_today env);
                  values = PyList [PyList [
                    PyStr (counter_name payload),
                    PyStr (store_name payload),
                    PyStr (sub_location payload),
                    PyStr today,
                    PyStr (item_name payload),
                    PyStr (condition payload),
                    PyFloat (qty payload)]];
                  body = PyDict [(''values'', values)];
                  range = TAB_NAME @ ''!A:G'';
                  call = ValuesAppend (SHEET_ID cfg) range ''USER_ENTERED'' body
              in
                (case values_append service (SHEET_ID cfg) range ''USER_ENTERED'' body of
                   Some e \<Rightarrow>
                     (Inl (HTTPException 500 (''Sheets append failed: '' @ e)),
                      [CredentialResolution, call])
                 | None \<Rightarrow>
                     (Inr (JSONResponse
                            (PyDict [(''status'', PyStr ''ok''),
                                     (''received'', payload_dict payload)])),
                      [CredentialResolution, call])))))"

subsection \<open>The routes\<close>

text \<open>
  The four decorated routes. A request to \<open>/submit_count\<close> carries the body, already
  validated as a \<open>CountPayload\<close>, and the value of the \<open>X-Shared-Pin\<close> header, \<open>None\<close>
  when the header is absent.
\<close>

datatype 'float request =
    GET_root
  | GET_health
  | GET_items
  | POST_submit_count "'float CountPayload" "string option"

definition app ::
  "config \<Rightarrow> ('info, 'creds, 'float) environment \<Rightarrow> 'float request
     \<Rightarrow> (raised + 'float response) \<times> 'float effect list" where
  "app cfg env req =
     (case req of
        GET_root \<Rightarrow> serve_index env
      | GET_health \<Rightarrow> (Inr (JSONResponse health), [])
      | GET_items \<Rightarrow> get_items cfg env
      | POST_submit_count payload x_shared_pin \<Rightarrow> submit_count cfg env payload x_shared_pin)"

subsection \<open>What the specification says, for comparison\<close>

text \<open>
  The calendar form YYYY-MM-DD: ten characters, hyphens at positions 4 and 7, decimal
  digits elsewhere.
\<close>

definition iso_calendar_form :: "string \<Rightarrow> bool" where
  "iso_calendar_form s =
     (length s = 10 \<and> s ! 4 = CHR ''-'' \<and> s ! 7 = CHR ''-''
      \<and> list_all (\<lambda>i. is_digit (s ! i)) [0, 1, 2, 3, 5, 6, 8, 9])"

text \<open>
  The item list in the specification's words: rows that are empty or whose first cell is
  empty or whitespace-only are discarded, and each name is the trimmed first cell.
\<close>

definition spec_item_names :: "string list list \<Rightarrow> string list" where
  "spec_item_names rows =
     map (\<lambda>row. strip (hd row)) (filter (\<lambda>row. row \<noteq> [] \<and> \<not> list_all isspace (hd row)) rows)"

text \<open>
  The configuration error of the module is the \<open>RuntimeError\<close> of \<open>get_sheets_service\<close>.
  In the specification's words it is raised exactly when the spreadsheet identifier is
  unset, when neither credential source is configured, when the inline credential text
  does not parse, or (the inline credential being absent) when the key file does not
  exist.
\<close>

definition is_configuration_error :: "exn + 'a \<Rightarrow> bool" where
  "is_configuration_error r = (case r of Inl (RuntimeError m) \<Rightarrow> True | _ \<Rightarrow> False)"

definition spec_configuration_error ::
  "config \<Rightarrow> ('info, 'creds, 'float) environment \<Rightarrow> bool" where
  "spec_configuration_error cfg env =
     (SHEET_ID cfg = None
      \<or> (case SERVICE_ACCOUNT_JSON cfg of
            Some text \<Rightarrow> isl (json_loads env text)
          | None \<Rightarrow>
              (case SERVICE_FILE cfg of
                 Some file \<Rightarrow> \<not> path_exists env (sa_path env file)
               | None \<Rightarrow> True)))"

subsection \<open>Stub clients and sample inputs\<close>

text \<open>
  A remote client that answers every read with \<open>read_result\<close> and every append with
  \<open>append_result\<close>, and an environment that builds this client: its \<open>json.loads\<close>
  parses every text, its \<open>from_service_account_info\<close> answers \<open>info_result\<close>, its file
  system is a POSIX one that holds no key file, and its clock shows 2024-01-15.
\<close>

definition stub_service ::
  "string + string list list option \<Rightarrow> string option \<Rightarrow> real sheets_service" where
  "stub_service read_result append_result =
     \<lparr>values_get = (\<lambda>spreadsheetId range. read_result),
      values_append = (\<lambda>spreadsheetId range valueInputOption body. append_result)\<rparr>"

definition stub_environment ::
  "string + unit \<Rightarrow> real sheets_service \<Rightarrow> (unit, unit, real) environment" where
  "stub_environment info_result service =
     \<lparr>json_loads = (\<lambda>text. Inr ()),
      from_service_account_info = (\<lambda>info scopes. info_result),
      path_isabs = (\<lambda>path. take 1 path = ''/''),
      path_join = (\<lambda>a b. a @ ''/'' @ b),
      module_dirname = ''/app'',
      path_exists = (\<lambda>path. False),
      from_service_account_file = (\<lambda>path scopes. Inl ''No such file or directory''),
      build = (\<lambda>serviceName version creds. Inr service),
      date_today = \<lparr>year = 2024, month = 1, day = 15\<rparr>,
      index_read_text = Inr ''<html></html>''\<rparr>"

definition sample_config :: "string option \<Rightarrow> config" where
  "sample_config pin =
     \<lparr>SHEET_ID = Some ''sheet-1'', SERVICE_ACCOUNT_JSON = Some ''{...}'',
      SERVICE_FILE = None, SHARED_PIN = pin\<rparr>"

definition sample_payload :: "real CountPayload" where
  "sample_payload =
     \<lparr>counter_name = ''A'', store_name = ''B'', sub_location = ''C'', item_name = ''D'',
      condition = ''E'', qty = 3.5\<rparr>"

section \<open>Properties\<close>

subsection \<open>Auxiliary facts\<close>

lemma strip_empty_iff: "strip s = [] \<longleftrightarrow> list_all isspace s"
proof
  assume "list_all isspace s"
  then show "strip s = []"
    by (auto simp: strip_def list_all_iff dest: set_dropWhileD)
next
  assume "strip s = []"
  then have rest: "\<forall>c \<in> set (dropWhile isspace s). isspace c"
    by (simp add: strip_def)
  have "dropWhile isspace s = []"
  proof (rule ccontr)
    assume ne: "dropWhile isspace s \<noteq> []"
    then have "\<not> isspace (hd (dropWhile isspace s))" by (rule hd_dropWhile)
    moreover from ne have "hd (dropWhile isspace s) \<in> set (dropWhile isspace s)" by simp
    ultimately show False using rest by blast
  qed
  then show "list_all isspace s"
    by (simp add: list_all_iff)
qed

lemma is_digit_digit: "d < 10 \<Longrightarrow> is_digit (digit d)"
proof -
  assume "d < 10"
  then have "d \<in> {0, 1, 2, 3, 4, 5, 6, 7, 8, 9}" by auto
  then show ?thesis unfolding is_digit_def digit_def by auto
qed

lemma dec_digits: "list_all is_digit (dec n)"
proof (induction n rule: dec.induct)
  case (1 n)
  show ?case
  proof (cases "n < 10")
    case True
    then show ?thesis by (simp add: dec.simps [of n] is_digit_digit)
  next
    case False
    with "1" have "list_all is_digit (dec (n div 10))" by simp
    moreover have "is_digit (digit (n mod 10))" by (simp add: is_digit_digit)
    ultimately show ?thesis using False by (simp add: dec.simps [of n])
  qed
qed

lemma length_dec: "n < 10 ^ k \<Longrightarrow> 0 < k \<Longrightarrow> length (dec n) \<le> k"
proof (induction n arbitrary: k rule: dec.induct)
  case (1 n)
  show ?case
  proof (cases "n < 10")
    case True
    with "1.prems" show ?thesis by (simp add: dec.simps [of n])
  next
    case False
    from "1.prems" obtain k' where k: "k = Suc k'" by (cases k) auto
    with False "1.prems" have "0 < k'" by (cases k') auto
    moreover from "1.prems" k have "n < 10 ^ k' * 10" by simp
    then have "n div 10 < 10 ^ k'" by (rule less_mult_imp_div_less)
    ultimately have "length (dec (n div 10)) \<le> k'" using "1.IH" False by simp
    with False k show ?thesis by (simp add: dec.simps [of n])
  qed
qed

lemma zero_padded_shape:
  assumes "length (dec n) \<le> w"
  shows "length (zero_padded w n) = w \<and> list_all is_digit (zero_padded w n)"
proof -
  have "is_digit CHR ''0''" by (simp add: is_digit_def)
  then have "list_all is_digit (replicate (w - length (dec n)) CHR ''0'')"
    by (simp add: list_all_iff)
  with assms dec_digits [of n] show ?thesis by (simp add: zero_padded_def)
qed

lemma isoformat_shape:
  assumes "date_in_range d"
  shows "iso_calendar_form (isoformat d)"
proof -
  from assms have "year d < 10 ^ 4" and "month d < 10 ^ 2" and "day d < 10 ^ 2"
    by (simp_all add: date_in_range_def)
  then have y: "length (dec (year d)) \<le> 4" and m: "length (dec (month d)) \<le> 2"
    and dd: "length (dec (day d)) \<le> 2"
    by (simp_all only: length_dec zero_less_numeral)
  obtain a where a: "a = zero_padded 4 (year d)" by simp
  obtain b where b: "b = zero_padded 2 (month d)" by simp
  obtain c where c: "c = zero_padded 2 (day d)" by simp
  have la: "length a = 4" "list_all is_digit a" using zero_padded_shape [OF y] a by simp_all
  have lb: "length b = 2" "list_all is_digit b" using zero_padded_shape [OF m] b by simp_all
  have lc: "length c = 2" "list_all is_digit c" using zero_padded_shape [OF dd] c by simp_all
  from la(1) obtain a0 a1 a2 a3 where a': "a = [a0, a1, a2, a3]"
    by (auto simp: length_Suc_conv numeral_eq_Suc)
  from lb(1) obtain b0 b1 where b': "b = [b0, b1]"
    by (auto simp: length_Suc_conv numeral_eq_Suc)
  from lc(1) obtain c0 c1 where c': "c = [c0, c1]"
    by (auto simp: length_Suc_conv numeral_eq_Suc)
  have "isoformat d = a @ ''-'' @ b @ ''-'' @ c" by (simp add: isoformat_def a b c)
  then show ?thesis using la(2) lb(2) lc(2) unfolding a' b' c'
    by (simp add: iso_calendar_form_def)
qed

lemma truthy_value_cases:
  "truthy_value v = Some s \<longleftrightarrow> v = Some s \<and> s \<noteq> []"
  "truthy_value v = None \<longleftrightarrow> v = None \<or> v = Some []"
  "truthy v \<longleftrightarrow> (\<exists>s. v = Some s \<and> s \<noteq> [])"
  "\<not> truthy v \<longleftrightarrow> v = None \<or> v = Some []"
  by (auto simp: truthy_def truthy_value_def split: option.splits)

lemma build_sheets_no_configuration_error:
  "\<not> is_configuration_error (build_sheets env creds)"
  by (simp add: build_sheets_def is_configuration_error_def split: sum.split)

lemma load_inline_fails:
  "isl (load_inline env text) \<longleftrightarrow>
     isl (json_loads env text)
     \<or> (\<exists>info. json_loads env text = Inr info
           \<and> isl (from_service_account_info env info SCOPES))"
  by (auto simp: load_inline_def split: sum.splits)

lemmas stub_defs = sample_config_def stub_environment_def stub_service_def sample_payload_def
  get_sheets_service_def load_inline_def build_sheets_def truthy_def truthy_value_def

lemma sample_service:
  "get_sheets_service (sample_config pin) (stub_environment (Inr ()) service) = Inr service"
  by (simp add: stub_defs)

lemma sample_today:
  "isoformat (date_today (stub_environment info_result service)) = ''2024-01-15''"
  by (simp add: stub_environment_def isoformat_def zero_padded_def dec.simps digit_def)

subsection \<open>The shared PIN\<close>

text \<open>
  C1, as stated, fails when \<open>SHARED_PIN\<close> is set to the empty string: the test
  \<open>if SHARED_PIN and ...\<close> is false for it, so a request whose header \<open>1234\<close> differs
  from the configured value is not rejected; it resolves the credentials, appends the
  row and returns the success result.
\<close>

theorem empty_pin_wrong_header_counterexample:
  "SHARED_PIN (sample_config (Some '''')) = Some ''''
   \<and> Some ''1234'' \<noteq> SHARED_PIN (sample_config (Some ''''))
   \<and> submit_count (sample_config (Some ''''))
        (stub_environment (Inr ()) (stub_service (Inr None) None))
        sample_payload (Some ''1234'')
      = (Inr (JSONResponse
               (PyDict [(''status'', PyStr ''ok''), (''received'', payload_dict sample_payload)])),
         [CredentialResolution,
          ValuesAppend (Some ''sheet-1'') ''Input_Counts!A:G'' ''USER_ENTERED''
            (PyDict [(''values'', PyList [PyList [PyStr ''A'', PyStr ''B'', PyStr ''C'',
               PyStr ''2024-01-15'', PyStr ''D'', PyStr ''E'', PyFloat 3.5]])])])"
  by (simp add: submit_count_def sample_service sample_today)
     (simp add: sample_config_def truthy_def truthy_value_def stub_service_def
        sample_payload_def TAB_NAME_def)

text \<open>
  C1 (amended): when \<open>SHARED_PIN\<close> is set to a non-empty string and the supplied
  \<open>X-Shared-Pin\<close> header (absent or present) is not exactly equal to it, \<open>/submit_count\<close>
  raises the HTTP 401 exception with detail "Invalid PIN", and it performs no effect:
  no credential resolution and no remote append.
\<close>

theorem submit_count_rejects_wrong_pin:
  assumes "SHARED_PIN cfg = Some pin" and "pin \<noteq> []" and "x_shared_pin \<noteq> Some pin"
  shows "submit_count cfg env payload x_shared_pin
           = (Inl (HTTPException 401 ''Invalid PIN''), [])"
  using assms by (simp add: submit_count_def truthy_def truthy_value_def)

text \<open>Witness for C1: the secret is \<open>1234\<close> and the header carries \<open>0000\<close>.\<close>

theorem submit_count_rejects_wrong_pin_witness:
  "submit_count (sample_config (Some ''1234''))
     (stub_environment (Inr ()) (stub_service (Inr None) None))
     sample_payload (Some ''0000'')
   = (Inl (HTTPException 401 ''Invalid PIN''), [])"
  by (rule submit_count_rejects_wrong_pin [where pin = "''1234''"])
     (simp_all add: sample_config_def)

subsection \<open>The appended row\<close>

text \<open>
  C2: when the PIN test does not reject the request and the credentials resolve,
  \<open>/submit_count\<close> performs exactly one append, after the credential resolution, to the
  range \<open>Input_Counts!A:G\<close> of the configured spreadsheet with the value input option
  \<open>USER_ENTERED\<close>, and the body holds exactly one row, in the order counter_name,
  store_name, sub_location, date, item_name, condition, qty. The date is the server's
  \<open>date.today().isoformat()\<close>, not a field of the payload, and for every date that
  \<open>datetime.date\<close> can hold it has the form YYYY-MM-DD.
\<close>

theorem submit_count_appends_row:
  assumes "\<not> (truthy (SHARED_PIN cfg) \<and> x_shared_pin \<noteq> SHARED_PIN cfg)"
    and "get_sheets_service cfg env = Inr service"
  shows "snd (submit_count cfg env payload x_shared_pin) =
           [CredentialResolution,
            ValuesAppend (SHEET_ID cfg) ''Input_Counts!A:G'' ''USER_ENTERED''
              (PyDict [(''values'', PyList [PyList [
                 PyStr (counter_name payload), PyStr (store_name payload),
                 PyStr (sub_location payload), PyStr (isoformat (date_today env)),
                 PyStr (item_name payload), PyStr (condition payload),
                 PyFloat (qty payload)]])])]
         \<and> truthy (SHEET_ID cfg)
         \<and> (date_in_range (date_today env)
              \<longrightarrow> iso_calendar_form (isoformat (date_today env)))"
proof -
  have "truthy (SHEET_ID cfg)"
    using assms(2) by (auto simp: get_sheets_service_def split: if_splits)
  moreover have "snd (submit_count cfg env payload x_shared_pin) =
           [CredentialResolution,
            ValuesAppend (SHEET_ID cfg) ''Input_Counts!A:G'' ''USER_ENTERED''
              (PyDict [(''values'', PyList [PyList [
                 PyStr (counter_name payload), PyStr (store_name payload),
                 PyStr (sub_location payload), PyStr (isoformat (date_today env)),
                 PyStr (item_name payload), PyStr (condition payload),
                 PyFloat (qty payload)]])])]"
    using assms by (simp add: submit_count_def TAB_NAME_def Let_def split: option.split)
  ultimately show ?thesis by (simp add: isoformat_shape)
qed

text \<open>
  Witness for C2: the submission A, B, C, D, E, 3.5 on 2024-01-15 is appended as the
  row A, B, C, 2024-01-15, D, E, 3.5.
\<close>

theorem submit_count_appends_row_witness:
  "snd (submit_count (sample_config None)
          (stub_environment (Inr ()) (stub_service (Inr None) None)) sample_payload None) =
     [CredentialResolution,
      ValuesAppend (Some ''sheet-1'') ''Input_Counts!A:G'' ''USER_ENTERED''
        (PyDict [(''values'', PyList [PyList [PyStr ''A'', PyStr ''B'', PyStr ''C'',
           PyStr ''2024-01-15'', PyStr ''D'', PyStr ''E'', PyFloat 3.5]])])]
   \<and> iso_calendar_form ''2024-01-15''"
proof -
  have pin: "\<not> (truthy (SHARED_PIN (sample_config None))
                \<and> None \<noteq> SHARED_PIN (sample_config None))"
    by (simp add: sample_config_def)
  have range:
    "date_in_range (date_today (stub_environment (Inr ()) (stub_service (Inr None) None)))"
    by (simp add: stub_environment_def date_in_range_def)
  show ?thesis
    using submit_count_appends_row
            [OF pin sample_service [of None "stub_service (Inr None) None"],
             where payload = sample_payload]
      sample_today [of "Inr ()" "stub_service (Inr None) None"] range
    by (simp add: sample_config_def sample_payload_def)
qed

subsection \<open>The item list\<close>

text \<open>
  C3, as stated, fails on a name with surrounding blanks: \<open>strip()\<close> is applied in the
  filter only, and the list holds \<open>row[0]\<close> as it was read. For the single remote row
  \<open>[" Widget "]\<close> the handler returns \<open>" Widget "\<close>, where the trimmed value is
  \<open>"Widget"\<close>.
\<close>

theorem get_items_untrimmed_counterexample:
  "fst (get_items (sample_config None)
          (stub_environment (Inr ()) (stub_service (Inr (Some [['' Widget '']])) None)))
     = Inr (JSONResponse (PyDict [(''items'', PyList [PyStr '' Widget ''])]))
   \<and> spec_item_names [['' Widget '']] = [''Widget'']
   \<and> fst (get_items (sample_config None)
          (stub_environment (Inr ()) (stub_service (Inr (Some [['' Widget '']])) None)))
     \<noteq> Inr (JSONResponse
              (PyDict [(''items'', PyList (map PyStr (spec_item_names [['' Widget '']])))]))"
  by (simp add: get_items_def sample_service stub_service_def item_names_def items_result_def
      spec_item_names_def strip_def isspace_def)

text \<open>
  C3 (amended): when the credentials resolve and the read of \<open>Item_Master!B2:B\<close>
  returns, \<open>/items\<close> returns \<open>{"items": [...]}\<close> holding, in order, the first cell of
  every remote row that is not empty and whose first cell has a character that is not
  white space; each name is that first cell as it was read, not trimmed. A response
  without \<open>values\<close> gives the empty list.
\<close>

theorem get_items_first_cells:
  assumes "get_sheets_service cfg env = Inr service"
    and "values_get service (SHEET_ID cfg) ''Item_Master!B2:B'' = Inr resp"
  shows "fst (get_items cfg env) =
           Inr (JSONResponse (PyDict [(''items'', PyList (map PyStr
             (map hd (filter (\<lambda>row. row \<noteq> [] \<and> \<not> list_all isspace (hd row))
                        (case resp of None \<Rightarrow> [] | Some rows \<Rightarrow> rows)))))]))"
  using assms
  by (simp add: get_items_def ITEM_MASTER_RANGE_def item_names_def items_result_def
      strip_empty_iff)

text \<open>
  Witness for C3: the remote rows \<open>[["Widget"], [" "], [""], ["Gadget"]]\<close> give
  \<open>["Widget", "Gadget"]\<close>.
\<close>

theorem get_items_first_cells_witness:
  "fst (get_items (sample_config None)
          (stub_environment (Inr ())
             (stub_service (Inr (Some [[''Widget''], ['' ''], [''''], [''Gadget'']])) None)))
     = Inr (JSONResponse (PyDict [(''items'', PyList [PyStr ''Widget'', PyStr ''Gadget''])]))"
proof -
  have read:
    "values_get (stub_service (Inr (Some [[''Widget''], ['' ''], [''''], [''Gadget'']])) None)
       (SHEET_ID (sample_config None)) ''Item_Master!B2:B''
     = Inr (Some [[''Widget''], ['' ''], [''''], [''Gadget'']])"
    by (simp add: stub_service_def)
  show ?thesis
    using get_items_first_cells [OF sample_service [of None] read] by (simp add: isspace_def)
qed

text \<open>
  C4: \<open>/items\<close> returns a result \<open>{"items": [...]}\<close> in every configuration and
  environment; it never raises. When the credential resolution raises, or the remote read
  raises, the result is \<open>{"items": []}\<close> and the only further effect is the printed
  message with the error text.
\<close>

theorem get_items_never_raises:
  "(\<exists>names. fst (get_items cfg env)
       = Inr (JSONResponse (PyDict [(''items'', PyList (map PyStr names))])))
   \<and> (\<forall>e. get_sheets_service cfg env = Inl e \<longrightarrow>
         get_items cfg env =
           (Inr (JSONResponse (PyDict [(''items'', PyList [])])),
            [CredentialResolution,
             Print (''Error loading items from Item_Master: '' @ exn_str e)]))
   \<and> (\<forall>service e. get_sheets_service cfg env = Inr service
          \<and> values_get service (SHEET_ID cfg) ''Item_Master!B2:B'' = Inl e \<longrightarrow>
         get_items cfg env =
           (Inr (JSONResponse (PyDict [(''items'', PyList [])])),
            [CredentialResolution, ValuesGet (SHEET_ID cfg) ''Item_Master!B2:B'',
             Print (''Error loading items from Item_Master: '' @ e)]))"
proof (intro conjI allI impI)
  show "\<exists>names. fst (get_items cfg env)
          = Inr (JSONResponse (PyDict [(''items'', PyList (map PyStr names))]))"
  proof (cases "get_sheets_service cfg env")
    case (Inl e)
    then have "fst (get_items cfg env)
        = Inr (JSONResponse (PyDict [(''items'', PyList (map PyStr []))]))"
      by (simp add: get_items_def items_result_def)
    then show ?thesis by blast
  next
    case (Inr service)
    show ?thesis
    proof (cases "values_get service (SHEET_ID cfg) ITEM_MASTER_RANGE")
      case (Inl e)
      with Inr have "fst (get_items cfg env)
          = Inr (JSONResponse (PyDict [(''items'', PyList (map PyStr []))]))"
        by (simp add: get_items_def items_result_def)
      then show ?thesis by blast
    next
      case read: (Inr resp)
      with Inr have "fst (get_items cfg env) =
          Inr (JSONResponse (PyDict [(''items'', PyList (map PyStr
            (item_names (case resp of None \<Rightarrow> [] | Some rows \<Rightarrow> rows))))]))"
        by (simp add: get_items_def items_result_def)
      then show ?thesis by blast
    qed
  qed
next
  fix e assume "get_sheets_service cfg env = Inl e"
  then show "get_items cfg env =
           (Inr (JSONResponse (PyDict [(''items'', PyList [])])),
            [CredentialResolution,
             Print (''Error loading items from Item_Master: '' @ exn_str e)])"
    by (simp add: get_items_def items_result_def)
next
  fix service e
  assume "get_sheets_service cfg env = Inr service
          \<and> values_get service (SHEET_ID cfg) ''Item_Master!B2:B'' = Inl e"
  then show "get_items cfg env =
           (Inr (JSONResponse (PyDict [(''items'', PyList [])])),
            [CredentialResolution, ValuesGet (SHEET_ID cfg) ''Item_Master!B2:B'',
             Print (''Error loading items from Item_Master: '' @ e)])"
    by (simp add: get_items_def items_result_def ITEM_MASTER_RANGE_def)
qed

text \<open>
  Witness for C4: with \<open>SHEET_ID\<close> unset the credential resolution raises, and with a
  remote client that raises on every read the read raises; both give \<open>{"items": []}\<close>.
\<close>

theorem get_items_never_raises_witness:
  "get_items ((sample_config None)\<lparr>SHEET_ID := None\<rparr>)
       (stub_environment (Inr ()) (stub_service (Inr None) None))
     = (Inr (JSONResponse (PyDict [(''items'', PyList [])])),
        [CredentialResolution,
         Print ''Error loading items from Item_Master: SHEET_ID env var is not set''])
   \<and> get_items (sample_config None)
       (stub_environment (Inr ()) (stub_service (Inl ''HttpError 403'') None))
     = (Inr (JSONResponse (PyDict [(''items'', PyList [])])),
        [CredentialResolution, ValuesGet (Some ''sheet-1'') ''Item_Master!B2:B'',
         Print ''Error loading items from Item_Master: HttpError 403''])"
proof -
  have unset: "get_sheets_service ((sample_config None)\<lparr>SHEET_ID := None\<rparr>)
       (stub_environment (Inr ()) (stub_service (Inr None) None))
     = Inl (RuntimeError ''SHEET_ID env var is not set'')"
    by (simp add: stub_defs)
  have read: "values_get (stub_service (Inl ''HttpError 403'') None)
      (SHEET_ID (sample_config None)) ''Item_Master!B2:B'' = Inl ''HttpError 403''"
    by (simp add: stub_service_def)
  show ?thesis
    using get_items_never_raises [of "(sample_config None)\<lparr>SHEET_ID := None\<rparr>"
                "stub_environment (Inr ()) (stub_service (Inr None) None)"]
      get_items_never_raises [of "sample_config None"
             "stub_environment (Inr ()) (stub_service (Inl ''HttpError 403'') None)"]
      unset sample_service [of None "stub_service (Inl ''HttpError 403'') None"] read
    by (simp add: sample_config_def)
qed

subsection \<open>Credential resolution\<close>

text \<open>
  C5, as stated, fails in two ways. With \<open>SHEET_ID\<close> set to the empty string,
  \<open>if not SHEET_ID\<close> raises the configuration error although the identifier is set and
  an inline credential is configured that loads. And with an inline credential text that
  \<open>json.loads\<close> parses but \<open>from_service_account_info\<close> rejects, the \<open>except\<close> clause
  around both calls raises the configuration error although the text parsed.
\<close>

theorem configuration_error_counterexample:
  "get_sheets_service ((sample_config None)\<lparr>SHEET_ID := Some ''''\<rparr>)
       (stub_environment (Inr ()) (stub_service (Inr None) None))
     = Inl (RuntimeError ''SHEET_ID env var is not set'')
   \<and> \<not> spec_configuration_error ((sample_config None)\<lparr>SHEET_ID := Some ''''\<rparr>)
       (stub_environment (Inr ()) (stub_service (Inr None) None))
   \<and> get_sheets_service (sample_config None)
       (stub_environment (Inl ''missing fields'') (stub_service (Inr None) None))
     = Inl (RuntimeError ''Failed to load SERVICE_ACCOUNT_JSON: missing fields'')
   \<and> \<not> spec_configuration_error (sample_config None)
       (stub_environment (Inl ''missing fields'') (stub_service (Inr None) None))"
  by (simp add: stub_defs spec_configuration_error_def)

text \<open>
  C5 (amended): \<open>get_sheets_service\<close> raises its configuration error exactly when
  \<open>SHEET_ID\<close> is unset or empty; or both the inline JSON credential and the key-file
  path are unset or empty; or the inline credential is unset or empty, the key-file path
  is not, and the resolved key-file path does not exist; or the inline credential is not
  empty and loading it raises, in \<open>json.loads\<close> or in \<open>from_service_account_info\<close>.
  The order is fixed: with a non-empty inline credential the result does not depend on
  the key-file path nor on the file system, which are consulted only when the inline
  credential is unset or empty.
\<close>

theorem get_sheets_service_configuration_error:
  "(is_configuration_error (get_sheets_service cfg env) \<longleftrightarrow>
      (SHEET_ID cfg = None \<or> SHEET_ID cfg = Some [])
      \<or> ((SERVICE_ACCOUNT_JSON cfg = None \<or> SERVICE_ACCOUNT_JSON cfg = Some [])
          \<and> (SERVICE_FILE cfg = None \<or> SERVICE_FILE cfg = Some []))
      \<or> ((SERVICE_ACCOUNT_JSON cfg = None \<or> SERVICE_ACCOUNT_JSON cfg = Some [])
          \<and> (\<exists>file. SERVICE_FILE cfg = Some file \<and> file \<noteq> []
                \<and> \<not> path_exists env (sa_path env file)))
      \<or> (\<exists>text. SERVICE_ACCOUNT_JSON cfg = Some text \<and> text \<noteq> []
            \<and> (isl (json_loads env text)
                \<or> (\<exists>info. json_loads env text = Inr info
                      \<and> isl (from_service_account_info env info SCOPES)))))
   \<and> ((\<exists>text. SERVICE_ACCOUNT_JSON cfg = Some text \<and> text \<noteq> []) \<longrightarrow>
        get_sheets_service (cfg\<lparr>SERVICE_FILE := file'\<rparr>)
          (env\<lparr>path_isabs := isabs', path_join := join', module_dirname := dirname',
               path_exists := exists', from_service_account_file := from_file'\<rparr>)
        = get_sheets_service cfg env)"
proof (intro conjI impI)
  show "is_configuration_error (get_sheets_service cfg env) \<longleftrightarrow>
      (SHEET_ID cfg = None \<or> SHEET_ID cfg = Some [])
      \<or> ((SERVICE_ACCOUNT_JSON cfg = None \<or> SERVICE_ACCOUNT_JSON cfg = Some [])
          \<and> (SERVICE_FILE cfg = None \<or> SERVICE_FILE cfg = Some []))
      \<or> ((SERVICE_ACCOUNT_JSON cfg = None \<or> SERVICE_ACCOUNT_JSON cfg = Some [])
          \<and> (\<exists>file. SERVICE_FILE cfg = Some file \<and> file \<noteq> []
                \<and> \<not> path_exists env (sa_path env file)))
      \<or> (\<exists>text. SERVICE_ACCOUNT_JSON cfg = Some text \<and> text \<noteq> []
            \<and> (isl (json_loads env text)
                \<or> (\<exists>info. json_loads env text = Inr info
                      \<and> isl (from_service_account_info env info SCOPES))))"
  proof (cases "truthy (SHEET_ID cfg)")
    case False
    then have "is_configuration_error (get_sheets_service cfg env)"
      by (simp add: get_sheets_service_def is_configuration_error_def)
    moreover from False have "SHEET_ID cfg = None \<or> SHEET_ID cfg = Some []"
      by (simp only: truthy_value_cases(4))
    ultimately show ?thesis by simp
  next
    case sheet: True
    show ?thesis
    proof (cases "truthy_value (SERVICE_ACCOUNT_JSON cfg)")
      case (Some inline_text)
      then have "is_configuration_error (get_sheets_service cfg env)
          \<longleftrightarrow> isl (load_inline env inline_text)"
        using sheet build_sheets_no_configuration_error [of env]
        by (simp add: get_sheets_service_def split: sum.split)
           (simp add: is_configuration_error_def)
      then show ?thesis
        using Some sheet unfolding load_inline_fails
        by (auto simp: truthy_value_cases)
    next
      case inline: None
      show ?thesis
      proof (cases "truthy_value (SERVICE_FILE cfg)")
        case None
        with inline sheet have "is_configuration_error (get_sheets_service cfg env)"
          by (simp add: get_sheets_service_def is_configuration_error_def)
        moreover from inline None
        have "(SERVICE_ACCOUNT_JSON cfg = None \<or> SERVICE_ACCOUNT_JSON cfg = Some [])
          \<and> (SERVICE_FILE cfg = None \<or> SERVICE_FILE cfg = Some [])"
          by (simp add: truthy_value_cases)
        ultimately show ?thesis by simp
      next
        case (Some key_file)
        then have "is_configuration_error (get_sheets_service cfg env)
            \<longleftrightarrow> \<not> path_exists env (sa_path env key_file)"
          using sheet inline build_sheets_no_configuration_error [of env]
          by (simp add: get_sheets_service_def split: sum.split)
             (simp add: is_configuration_error_def)
        then show ?thesis using Some inline sheet
          by (auto simp: truthy_value_cases)
      qed
    qed
  qed
next
  assume "\<exists>text. SERVICE_ACCOUNT_JSON cfg = Some text \<and> text \<noteq> []"
  then obtain inline_text where "truthy_value (SERVICE_ACCOUNT_JSON cfg) = Some inline_text"
    by (auto simp: truthy_value_cases)
  then show "get_sheets_service (cfg\<lparr>SERVICE_FILE := file'\<rparr>)
          (env\<lparr>path_isabs := isabs', path_join := join', module_dirname := dirname',
               path_exists := exists', from_service_account_file := from_file'\<rparr>)
        = get_sheets_service cfg env"
    by (simp add: get_sheets_service_def load_inline_def build_sheets_def split: sum.split)
qed

text \<open>
  Witness for C5: an unset \<open>SHEET_ID\<close> and a key file that does not exist (with no
  inline credential) raise the configuration error, the sample configuration does not,
  and it resolves to the same client when a key-file path is configured besides its
  inline credential.
\<close>

theorem get_sheets_service_configuration_error_witness:
  "is_configuration_error
     (get_sheets_service ((sample_config None)\<lparr>SHEET_ID := None\<rparr>)
        (stub_environment (Inr ()) (stub_service (Inr None) None)))
   \<and> is_configuration_error
     (get_sheets_service
        ((sample_config None)\<lparr>SERVICE_ACCOUNT_JSON := None, SERVICE_FILE := Some ''key.json''\<rparr>)
        (stub_environment (Inr ()) (stub_service (Inr None) None)))
   \<and> \<not> is_configuration_error
     (get_sheets_service (sample_config None)
        (stub_environment (Inr ()) (stub_service (Inr None) None)))
   \<and> get_sheets_service ((sample_config None)\<lparr>SERVICE_FILE := Some ''key.json''\<rparr>)
        (stub_environment (Inr ()) (stub_service (Inr None) None))
     = Inr (stub_service (Inr None) None)"
proof -
  let ?env = "stub_environment (Inr ()) (stub_service (Inr None) None)"
  have inline:
    "\<exists>inline. SERVICE_ACCOUNT_JSON (sample_config None) = Some inline \<and> inline \<noteq> []"
    by (simp add: sample_config_def)
  have same: "?env\<lparr>path_isabs := path_isabs ?env, path_join := path_join ?env,
      module_dirname := module_dirname ?env, path_exists := path_exists ?env,
      from_service_account_file := from_service_account_file ?env\<rparr> = ?env"
    by simp
  show ?thesis
    using get_sheets_service_configuration_error
            [of "(sample_config None)\<lparr>SHEET_ID := None\<rparr>" ?env]
      get_sheets_service_configuration_error
            [of "(sample_config None)\<lparr>SERVICE_ACCOUNT_JSON := None,
                   SERVICE_FILE := Some ''key.json''\<rparr>" ?env]
      get_sheets_service_configuration_error
            [where cfg = "sample_config None" and env = ?env and file' = "Some ''key.json''"
               and isabs' = "path_isabs ?env" and join' = "path_join ?env"
               and dirname' = "module_dirname ?env" and exists' = "path_exists ?env"
               and from_file' = "from_service_account_file ?env"]
      inline sample_service [of None "stub_service (Inr None) None"]
    unfolding same
    by (simp add: sample_config_def stub_environment_def sa_path_def load_inline_def)
qed

subsection \<open>Failures and success of a submission\<close>

text \<open>
  C6: on \<open>/submit_count\<close>, once the PIN test has let the request through, a credential
  resolution that raises \<open>e\<close> makes the endpoint raise the HTTP 500 exception with detail
  "Config error: " followed by the text of \<open>e\<close>, and an append that raises \<open>e\<close> makes it
  raise the HTTP 500 exception with detail "Sheets append failed: " followed by the text
  of \<open>e\<close>. In both cases the outcome is the exception, not a result.
\<close>

theorem submit_count_server_errors:
  assumes "\<not> (truthy (SHARED_PIN cfg) \<and> x_shared_pin \<noteq> SHARED_PIN cfg)"
  shows "(\<forall>e. get_sheets_service cfg env = Inl e \<longrightarrow>
            submit_count cfg env payload x_shared_pin =
              (Inl (HTTPException 500 (''Config error: '' @ exn_str e)),
               [CredentialResolution]))
       \<and> (\<forall>service e. get_sheets_service cfg env = Inr service
             \<and> values_append service (SHEET_ID cfg) ''Input_Counts!A:G'' ''USER_ENTERED''
                 (PyDict [(''values'', PyList [PyList [
                    PyStr (counter_name payload), PyStr (store_name payload),
                    PyStr (sub_location payload), PyStr (isoformat (date_today env)),
                    PyStr (item_name payload), PyStr (condition payload),
                    PyFloat (qty payload)]])]) = Some e \<longrightarrow>
            fst (submit_count cfg env payload x_shared_pin) =
              Inl (HTTPException 500 (''Sheets append failed: '' @ e)))"
proof (intro conjI allI impI)
  from assms
  have pin: "(truthy (SHARED_PIN cfg) \<and> x_shared_pin \<noteq> SHARED_PIN cfg) = False"
    by simp
  {
    fix e assume "get_sheets_service cfg env = Inl e"
    then show "submit_count cfg env payload x_shared_pin =
              (Inl (HTTPException 500 (''Config error: '' @ exn_str e)),
               [CredentialResolution])"
      by (simp add: submit_count_def pin)
  next
    fix service e
    assume "get_sheets_service cfg env = Inr service
             \<and> values_append service (SHEET_ID cfg) ''Input_Counts!A:G'' ''USER_ENTERED''
                 (PyDict [(''values'', PyList [PyList [
                    PyStr (counter_name payload), PyStr (store_name payload),
                    PyStr (sub_location payload), PyStr (isoformat (date_today env)),
                    PyStr (item_name payload), PyStr (condition payload),
                    PyFloat (qty payload)]])]) = Some e"
    then show "fst (submit_count cfg env payload x_shared_pin) =
              Inl (HTTPException 500 (''Sheets append failed: '' @ e))"
      by (simp add: submit_count_def pin TAB_NAME_def Let_def)
  }
qed

text \<open>
  Witness for C6: an unset \<open>SHEET_ID\<close>, and a remote client whose append raises
  "quota exceeded".
\<close>

theorem submit_count_server_errors_witness:
  "submit_count ((sample_config None)\<lparr>SHEET_ID := None\<rparr>)
       (stub_environment (Inr ()) (stub_service (Inr None) None)) sample_payload None
     = (Inl (HTTPException 500 ''Config error: SHEET_ID env var is not set''),
        [CredentialResolution])
   \<and> fst (submit_count (sample_config None)
       (stub_environment (Inr ()) (stub_service (Inr None) (Some ''quota exceeded'')))
       sample_payload None)
     = Inl (HTTPException 500 ''Sheets append failed: quota exceeded'')"
proof -
  have pin1: "\<not> (truthy (SHARED_PIN ((sample_config None)\<lparr>SHEET_ID := None\<rparr>))
      \<and> None \<noteq> SHARED_PIN ((sample_config None)\<lparr>SHEET_ID := None\<rparr>))"
    and pin2: "\<not> (truthy (SHARED_PIN (sample_config None))
      \<and> None \<noteq> SHARED_PIN (sample_config None))"
    by (simp_all add: sample_config_def)
  have unset: "get_sheets_service ((sample_config None)\<lparr>SHEET_ID := None\<rparr>)
       (stub_environment (Inr ()) (stub_service (Inr None) None))
     = Inl (RuntimeError ''SHEET_ID env var is not set'')"
    by (simp add: stub_defs)
  have append: "\<And>sid range opt body.
      values_append (stub_service (Inr None) (Some ''quota exceeded'')) sid range opt body
        = Some ''quota exceeded''"
    by (simp add: stub_service_def)
  show ?thesis
    using submit_count_server_errors
            [OF pin1, of "stub_environment (Inr ()) (stub_service (Inr None) None)"
               sample_payload]
      submit_count_server_errors
            [OF pin2,
             of "stub_environment (Inr ()) (stub_service (Inr None) (Some ''quota exceeded''))"
               sample_payload]
      unset sample_service [of None "stub_service (Inr None) (Some ''quota exceeded'')"] append
    by simp
qed

text \<open>
  C7: when \<open>SHARED_PIN\<close> is not configured, the outcome and the effects of
  \<open>/submit_count\<close> are the same for every value of the \<open>X-Shared-Pin\<close> header and for
  its absence, the "Invalid PIN" exception is never raised, and when the credentials
  resolve and the append returns, the endpoint returns the success result.
\<close>

theorem submit_count_open_access:
  assumes "SHARED_PIN cfg = None"
  shows "submit_count cfg env payload x_shared_pin = submit_count cfg env payload None
       \<and> fst (submit_count cfg env payload x_shared_pin)
           \<noteq> Inl (HTTPException 401 ''Invalid PIN'')
       \<and> (\<forall>service. get_sheets_service cfg env = Inr service
             \<and> values_append service (SHEET_ID cfg) ''Input_Counts!A:G'' ''USER_ENTERED''
                 (PyDict [(''values'', PyList [PyList [
                    PyStr (counter_name payload), PyStr (store_name payload),
                    PyStr (sub_location payload), PyStr (isoformat (date_today env)),
                    PyStr (item_name payload), PyStr (condition payload),
                    PyFloat (qty payload)]])]) = None \<longrightarrow>
            fst (submit_count cfg env payload x_shared_pin) =
              Inr (JSONResponse (PyDict [(''status'', PyStr ''ok''),
                                         (''received'', payload_dict payload)])))"
  using assms
  by (simp add: submit_count_def truthy_def truthy_value_def TAB_NAME_def Let_def
      split: sum.split option.split)

text \<open>
  Witness for C7: without a configured secret the sample submission succeeds with the
  header \<open>anything\<close> and without a header.
\<close>

theorem submit_count_open_access_witness:
  "fst (submit_count (sample_config None)
          (stub_environment (Inr ()) (stub_service (Inr None) None)) sample_payload
          (Some ''anything''))
     = Inr (JSONResponse (PyDict [(''status'', PyStr ''ok''),
                                  (''received'', payload_dict sample_payload)]))
   \<and> fst (submit_count (sample_config None)
          (stub_environment (Inr ()) (stub_service (Inr None) None)) sample_payload None)
     = Inr (JSONResponse (PyDict [(''status'', PyStr ''ok''),
                                  (''received'', payload_dict sample_payload)]))"
proof -
  have pin: "SHARED_PIN (sample_config None) = None"
    by (simp add: sample_config_def)
  have append: "\<And>sid range opt body.
      values_append (stub_service (Inr None) None) sid range opt body = None"
    by (simp add: stub_service_def)
  show ?thesis
    using submit_count_open_access
            [OF pin, of "stub_environment (Inr ()) (stub_service (Inr None) None)"
               sample_payload "Some ''anything''"]
      submit_count_open_access
            [OF pin, of "stub_environment (Inr ()) (stub_service (Inr None) None)"
               sample_payload None]
      sample_service [of None "stub_service (Inr None) None"] append
    by simp
qed

text \<open>
  C8: whenever \<open>/submit_count\<close> returns, the result is the success marker together with
  the echo of the submission: \<open>{"status": "ok", "received": {...}}\<close>, where \<open>received\<close>
  holds the six fields of the payload with their values.
\<close>

theorem submit_count_echoes_payload:
  assumes "fst (submit_count cfg env payload x_shared_pin) = Inr result"
  shows "result =
     JSONResponse (PyDict [
       (''status'', PyStr ''ok''),
       (''received'', PyDict [
          (''counter_name'', PyStr (counter_name payload)),
          (''store_name'', PyStr (store_name payload)),
          (''sub_location'', PyStr (sub_location payload)),
          (''item_name'', PyStr (item_name payload)),
          (''condition'', PyStr (condition payload)),
          (''qty'', PyFloat (qty payload))])])"
  using assms
  by (auto simp: submit_count_def payload_dict_def Let_def
      split: if_splits sum.splits option.splits)

text \<open>Witness for C8: the sample submission A, B, C, D, E, 3.5 is echoed.\<close>

theorem submit_count_echoes_payload_witness:
  "fst (submit_count (sample_config None)
          (stub_environment (Inr ()) (stub_service (Inr None) None)) sample_payload None)
     = Inr (JSONResponse (PyDict [
       (''status'', PyStr ''ok''),
       (''received'', PyDict [
          (''counter_name'', PyStr ''A''), (''store_name'', PyStr ''B''),
          (''sub_location'', PyStr ''C''), (''item_name'', PyStr ''D''),
          (''condition'', PyStr ''E''), (''qty'', PyFloat 3.5)])]))"
proof -
  have ok: "fst (submit_count (sample_config None)
          (stub_environment (Inr ()) (stub_service (Inr None) None)) sample_payload None)
     = Inr (JSONResponse (PyDict [(''status'', PyStr ''ok''),
                                  (''received'', payload_dict sample_payload)]))"
    by (simp add: submit_count_def sample_service)
       (simp add: sample_config_def truthy_def truthy_value_def stub_service_def)
  show ?thesis
    using submit_count_echoes_payload [OF ok] ok by (simp add: sample_payload_def)
qed

subsection \<open>The health check\<close>

text \<open>
  C9: the route \<open>/health\<close> returns \<open>{"status": "running"}\<close> and performs no effect, in
  every configuration and every environment.
\<close>

theorem health_always_running:
  "app cfg env GET_health
     = (Inr (JSONResponse (PyDict [(''status'', PyStr ''running'')])), [])"
  by (simp add: app_def health_def)

subsection \<open>An empty PIN and an absent header\<close>

text \<open>
  C10: when \<open>SHARED_PIN\<close> is the empty string, \<open>/submit_count\<close> behaves as with no
  secret configured: same outcome and same effects as in the configuration without
  \<open>SHARED_PIN\<close>, for every header value and for an absent header, and never the
  "Invalid PIN" exception. When \<open>SHARED_PIN\<close> is a non-empty string, a request without
  the header raises the HTTP 401 exception "Invalid PIN" and performs no effect.
\<close>

theorem submit_count_empty_or_absent_pin:
  "(SHARED_PIN cfg = Some [] \<longrightarrow>
      submit_count cfg env payload x_shared_pin
        = submit_count (cfg\<lparr>SHARED_PIN := None\<rparr>) env payload x_shared_pin
      \<and> submit_count cfg env payload x_shared_pin = submit_count cfg env payload None
      \<and> fst (submit_count cfg env payload x_shared_pin)
          \<noteq> Inl (HTTPException 401 ''Invalid PIN''))
   \<and> (\<forall>pin. SHARED_PIN cfg = Some pin \<and> pin \<noteq> [] \<longrightarrow>
        submit_count cfg env payload None = (Inl (HTTPException 401 ''Invalid PIN''), []))"
proof -
  have same: "get_sheets_service (cfg\<lparr>SHARED_PIN := None\<rparr>) env = get_sheets_service cfg env"
    by (simp add: get_sheets_service_def split: option.split)
  show ?thesis
    by (simp add: submit_count_def same truthy_def truthy_value_def Let_def
        split: sum.split option.split)
qed

text \<open>
  Witness for C10: with the empty secret the header \<open>1234\<close> is treated as in the
  configuration without a secret, and with the secret \<open>1234\<close> a request without header
  is rejected.
\<close>

theorem submit_count_empty_or_absent_pin_witness:
  "submit_count (sample_config (Some ''''))
       (stub_environment (Inr ()) (stub_service (Inr None) None))
       sample_payload (Some ''1234'')
     = submit_count (sample_config None)
         (stub_environment (Inr ()) (stub_service (Inr None) None))
         sample_payload (Some ''1234'')
   \<and> submit_count (sample_config (Some ''1234''))
       (stub_environment (Inr ()) (stub_service (Inr None) None)) sample_payload None
     = (Inl (HTTPException 401 ''Invalid PIN''), [])"
  using submit_count_empty_or_absent_pin
          [of "sample_config (Some '''')"
              "stub_environment (Inr ()) (stub_service (Inr None) None)"
              sample_payload "Some ''1234''"]
    submit_count_empty_or_absent_pin
          [of "sample_config (Some ''1234'')"
              "stub_environment (Inr ()) (stub_service (Inr None) None)"
              sample_payload]
  by (simp add: sample_config_def)

end
